theory Spec2Isabelle
  imports Main "HOL-Library.While_Combinator" "HOL-Library.Multiset"
    "HOL-Library.Char_ord" "HOL-Library.List_Lexorder"
begin

section \<open>Exceptions\<close>

text \<open>
  Every \<^verbatim>\<open>raise\<close> of the program and every exception of a library call
  that the program lets through or catches is a value of this type; a function that can
  raise returns \<open>exn + 'a\<close>, with \<open>Inl\<close> for the exception.
\<close>

datatype exn =
    AttributeError string
  | RuntimeError string
  | ValueError
  | OverflowError
  | CalledProcessError
  | FileExistsError
  | NotImplementedError

section \<open>The library's datetime and timedelta\<close>

text \<open>
  A \<^verbatim>\<open>datetime\<close> has its seven calendar fields and a \<^verbatim>\<open>tzinfo\<close>.
  Every timezone the program meets is a fixed-offset \<^verbatim>\<open>timezone\<close>
  (\<^verbatim>\<open>timezone.utc\<close>, the result of \<^verbatim>\<open>astimezone()\<close>, the result of
  \<^verbatim>\<open>%z\<close> in \<^verbatim>\<open>strptime\<close>), so \<open>tzinfo\<close> is the UTC offset, in
  microseconds, or \<open>None\<close> for a naive value. A \<^verbatim>\<open>timedelta\<close> is its
  number of microseconds.
\<close>

record datetime =
  year :: int
  month :: int
  day :: int
  hour :: int
  minute :: int
  second :: int
  microsecond :: int
  tzinfo :: "int option"

type_synonym timedelta = int

definition timedelta_seconds :: "int \<Rightarrow> timedelta" where
  "timedelta_seconds n = n * 1000000"

definition timedelta_days :: "int \<Rightarrow> timedelta" where
  "timedelta_days n = n * 86400000000"

text \<open>
  \<^verbatim>\<open>datetime.resolution\<close> is an attribute of the class, the smallest difference
  between two distinct values: \<^verbatim>\<open>timedelta(microseconds=1)\<close>, whatever the
  instance it is read from.
\<close>

definition resolution :: "datetime \<Rightarrow> timedelta" where
  "resolution t = 1"

subsection \<open>Calendar arithmetic\<close>

text \<open>
  The helper functions of the library's datetime module, on Python's unbounded integers:
  \<^verbatim>\<open>//\<close> and \<^verbatim>\<open>%\<close> round towards minus infinity, as \<open>div\<close> and
  \<open>mod\<close> on \<open>int\<close> do. Days are counted as proleptic Gregorian ordinals, 1 being
  0001-01-01.
\<close>

definition is_leap :: "int \<Rightarrow> bool" where
  "is_leap y = (y mod 4 = 0 \<and> (y mod 100 \<noteq> 0 \<or> y mod 400 = 0))"

definition days_before_year :: "int \<Rightarrow> int" where
  "days_before_year y = (y - 1) * 365 + (y - 1) div 4 - (y - 1) div 100 + (y - 1) div 400"

definition DAYS_IN_MONTH :: "int list" where
  "DAYS_IN_MONTH = [-1, 31, 28, 31, 30, 31, 30, 31, 31, 30, 31, 30, 31]"

definition DAYS_BEFORE_MONTH :: "int list" where
  "DAYS_BEFORE_MONTH = [-1, 0, 31, 59, 90, 120, 151, 181, 212, 243, 273, 304, 334]"

definition days_in_month :: "int \<Rightarrow> int \<Rightarrow> int" where
  "days_in_month y m = (if m = 2 \<and> is_leap y then 29 else DAYS_IN_MONTH ! nat m)"

definition days_before_month :: "int \<Rightarrow> int \<Rightarrow> int" where
  "days_before_month y m =
     DAYS_BEFORE_MONTH ! nat m + (if m > 2 \<and> is_leap y then 1 else 0)"

definition ymd2ord :: "int \<Rightarrow> int \<Rightarrow> int \<Rightarrow> int" where
  "ymd2ord y m d = days_before_year y + days_before_month y m + d"



text \<open>What the constructors \<^verbatim>\<open>datetime(...)\<close> and \<^verbatim>\<open>timezone(...)\<close> accept.\<close>

definition valid_datetime :: "datetime \<Rightarrow> bool" where
  "valid_datetime t =
     (1 \<le> year t \<and> year t \<le> 9999 \<and> 1 \<le> month t \<and> month t \<le> 12
      \<and> 1 \<le> day t \<and> day t \<le> days_in_month (year t) (month t)
      \<and> 0 \<le> hour t \<and> hour t < 24 \<and> 0 \<le> minute t \<and> minute t < 60
      \<and> 0 \<le> second t \<and> second t < 60
      \<and> 0 \<le> microsecond t \<and> microsecond t < 1000000
      \<and> (case tzinfo t of None \<Rightarrow> True
          | Some off \<Rightarrow> - 86400000000 < off \<and> off < 86400000000))"

definition toordinal :: "datetime \<Rightarrow> int" where
  "toordinal t = ymd2ord (year t) (month t) (day t)"

definition weekday :: "datetime \<Rightarrow> int" where
  "weekday t = (toordinal t + 6) mod 7"

subsection \<open>Instants, differences and comparison\<close>

text \<open>
  \<open>wall_micros\<close> is the \<^verbatim>\<open>timedelta(self.toordinal(), hours=..., minutes=...,
  seconds=..., microseconds=...)\<close> that the library's arithmetic starts from, and
  \<open>utc_micros\<close> the same after the UTC offset is subtracted: the instant the value
  denotes. A naive value has no offset to subtract; the program never compares one
  (\<open>Backup_init\<close> refuses it), and the theorems below assume timezone-aware values
  wherever a comparison is involved.
\<close>

definition wall_micros :: "datetime \<Rightarrow> int" where
  "wall_micros t =
     ((toordinal t * 24 + hour t) * 60 + minute t) * 60000000
       + second t * 1000000 + microsecond t"

definition utc_micros :: "datetime \<Rightarrow> int" where
  "utc_micros t = wall_micros t - (case tzinfo t of None \<Rightarrow> 0 | Some off \<Rightarrow> off)"

text \<open>
  \<^verbatim>\<open>a - b\<close> of two timezone-aware values, and their comparisons: the library
  compares aware values by the instants they denote.
\<close>

definition datetime_diff :: "datetime \<Rightarrow> datetime \<Rightarrow> timedelta" where
  "datetime_diff a b = utc_micros a - utc_micros b"

definition datetime_lt :: "datetime \<Rightarrow> datetime \<Rightarrow> bool" where
  "datetime_lt a b = (utc_micros a < utc_micros b)"






subsection \<open>Formatting\<close>

definition digit_char :: "nat \<Rightarrow> char" where
  "digit_char n = ''0123456789'' ! n"

fun str_nat :: "nat \<Rightarrow> string" where
  "str_nat n = (if n < 10 then [digit_char n] else str_nat (n div 10) @ [digit_char (n mod 10)])"

declare str_nat.simps [simp del]

text \<open>\<^verbatim>\<open>"%0wd" % n\<close> for a non-negative \<open>n\<close>.\<close>

definition fmt_0d :: "nat \<Rightarrow> int \<Rightarrow> string" where
  "fmt_0d w n = replicate (w - length (str_nat (nat n))) (CHR ''0'') @ str_nat (nat n)"



text \<open>
  \<^verbatim>\<open>%z\<close> of \<^verbatim>\<open>strftime\<close>: \<^verbatim>\<open>+HHMM\<close>, \<^verbatim>\<open>+HHMMSS\<close> when the offset
  has seconds, \<^verbatim>\<open>+HHMMSS.ffffff\<close> when it has microseconds; nothing for a naive
  value.
\<close>

definition strftime_z :: "int option \<Rightarrow> string" where
  "strftime_z tz =
     (case tz of
        None \<Rightarrow> []
      | Some off \<Rightarrow>
          (let a = \<bar>off\<bar>;
               h = a div 3600000000;
               m = (a mod 3600000000) div 60000000;
               s = (a mod 60000000) div 1000000;
               u = a mod 1000000
           in (if off < 0 then ''-'' else ''+'') @ fmt_0d 2 h @ fmt_0d 2 m
              @ (if u \<noteq> 0 then fmt_0d 2 s @ ''.'' @ fmt_0d 6 u
                 else if s \<noteq> 0 then fmt_0d 2 s
                 else [])))"

text \<open>
  \<^verbatim>\<open>ISO8601_COMPACT = "%Y%m%dT%H%M%S%z"\<close> and \<^verbatim>\<open>t.strftime(ISO8601_COMPACT)\<close>.
  (For a year below 1000 the C library decides whether \<^verbatim>\<open>%Y\<close> pads; the years
  the program formats are current ones.)
\<close>

definition strftime_ISO8601_COMPACT :: "datetime \<Rightarrow> string" where
  "strftime_ISO8601_COMPACT t =
     fmt_0d 4 (year t) @ fmt_0d 2 (month t) @ fmt_0d 2 (day t) @ ''T''
     @ fmt_0d 2 (hour t) @ fmt_0d 2 (minute t) @ fmt_0d 2 (second t)
     @ strftime_z (tzinfo t)"

section \<open>Backup records (sync.py, class Backup)\<close>

record Backup =
  name :: string
  path :: string
  time :: datetime
  is_dir :: bool

text \<open>\<^verbatim>\<open>Backup.__init__\<close>: the two checks, in the order of the source.\<close>

definition Backup_init :: "string \<Rightarrow> string \<Rightarrow> datetime \<Rightarrow> bool \<Rightarrow> exn + Backup" where
  "Backup_init n p t d =
     (if tzinfo t = None then Inl (AttributeError ''Requires Timezone Information'')
      else if resolution t > timedelta_seconds 1
        then Inl (AttributeError ''Requires more accurate time data'')
      else Inr \<lparr>name = n, path = p, time = t, is_dir = d\<rparr>)"

text \<open>
  \<^verbatim>\<open>__lt__\<close>, \<^verbatim>\<open>__gt__\<close> and \<^verbatim>\<open>__eq__\<close> of \<^verbatim>\<open>Backup\<close>.
\<close>

definition Backup_lt :: "Backup \<Rightarrow> Backup \<Rightarrow> bool" where
  "Backup_lt self other = datetime_lt (time self) (time other)"





text \<open>
  \<^verbatim>\<open>sorted(ret)\<close> on a list of records: the library's sort is stable and looks at
  the elements through \<^verbatim>\<open>__lt__\<close> only. Here it is the stable insertion sort over
  \<open>Backup_lt\<close>.
\<close>

fun insort_Backup :: "Backup \<Rightarrow> Backup list \<Rightarrow> Backup list" where
  "insort_Backup x [] = [x]"
| "insort_Backup x (y # ys) =
     (if Backup_lt y x then y # insort_Backup x ys else x # y # ys)"

definition sorted_Backups :: "Backup list \<Rightarrow> Backup list" where
  "sorted_Backups xs = foldr insort_Backup xs []"

subsection \<open>Two example timestamps\<close>





section \<open>Archive workspace selection (archive.py, \_Archive.\_get\_working\_path)\<close>

text \<open>
  The source directory as \<^verbatim>\<open>pathlib\<close> shows it: a regular file with its
  \<^verbatim>\<open>st_size\<close>, or a directory with the \<^verbatim>\<open>st_size\<close> of its own inode and
  its entries.
\<close>

datatype fs_node = File nat | Dir nat "fs_node list"

fun is_file :: "fs_node \<Rightarrow> bool" where
  "is_file (File n) = True"
| "is_file (Dir n ts) = False"

fun st_size :: "fs_node \<Rightarrow> nat" where
  "st_size (File n) = n"
| "st_size (Dir n ts) = n"

text \<open>
  \<^verbatim>\<open>input_path.glob("**/*")\<close>: every entry below the directory, at any depth,
  files and directories alike, the directory itself excluded. Nothing is below a regular
  file.
\<close>

fun glob_all :: "fs_node \<Rightarrow> fs_node list" where
  "glob_all (File n) = []"
| "glob_all (Dir n ts) = concat (map (\<lambda>t. t # glob_all t) ts)"

text \<open>
  \<^verbatim>\<open>sum(f.stat().st_size for f in self.input_path.glob("**/*") if f.is_file())\<close>
\<close>

definition input_size :: "fs_node \<Rightarrow> nat" where
  "input_size input_path = sum_list (map st_size (filter is_file (glob_all input_path)))"

text \<open>
  The loop over \<^verbatim>\<open>CONFIG.archive_working_paths\<close>; \<open>free p\<close> is
  \<^verbatim>\<open>shutil.disk_usage(p).free\<close>.
\<close>

fun working_path_loop :: "(string \<Rightarrow> nat) \<Rightarrow> nat \<Rightarrow> string list \<Rightarrow> exn + string" where
  "working_path_loop free sz [] =
     Inl (RuntimeError ''Could not find a workspace with enough free space'')"
| "working_path_loop free sz (p # ps) =
     (if free p > sz then Inr p else working_path_loop free sz ps)"

definition get_working_path :: "(string \<Rightarrow> nat) \<Rightarrow> string list \<Rightarrow> fs_node \<Rightarrow> exn + string" where
  "get_working_path free archive_working_paths input_path =
     working_path_loop free (input_size input_path) archive_working_paths"

text \<open>
  The spec's words for the size \<open>S\<close>: the total byte size of all files under the
  source directory, summed recursively. A file counts its own bytes, a directory the
  totals of its entries, and nothing for itself.
\<close>

fun total_file_bytes :: "fs_node \<Rightarrow> nat" where
  "total_file_bytes (File n) = n"
| "total_file_bytes (Dir n ts) = sum_list (map total_file_bytes ts)"

text \<open>
  The spec's test: roots with 10, 50 and 100 bytes free. A source of 60 bytes goes to the
  third root, a source of 200 bytes finds none.
\<close>

definition free_10_50_100 :: "string \<Rightarrow> nat" where
  "free_10_50_100 p =
     (if p = ''/a'' then 10 else if p = ''/b'' then 50 else if p = ''/c'' then 100 else 0)"

text \<open>
  A source directory of 60 bytes in files at depths one, two and four (between
  directories whose own inodes have 4096 bytes each), and one of 200 bytes.
\<close>

definition src_60 :: fs_node where
  "src_60 = Dir 4096 [File 15, Dir 4096 [File 5, Dir 4096 [Dir 4096 [File 40], Dir 4096 []]]]"

definition src_200 :: fs_node where
  "src_200 = Dir 4096 [Dir 4096 [File 120], File 80]"

definition src_10 :: fs_node where
  "src_10 = Dir 4096 [Dir 4096 [File 4, Dir 4096 [File 6]]]"

section \<open>Archives (archive.py)\<close>


text \<open>The fields of \<^verbatim>\<open>CONFIG\<close> that the archive classes read.\<close>

record program_config =
  archive_working_paths :: "string list"
  tar_args :: "string list"
  tar_extension :: string
  rar_path :: "string option"
  rar_args :: "string list"
  sevenz_path :: "string option"
  sevenz_args :: "string list"

text \<open>
  What an archive handler reads and changes outside itself: the module global
  \<^verbatim>\<open>CONFIG\<close> (the rar class removes an element from \<^verbatim>\<open>CONFIG.rar_args\<close>),
  the paths that exist, the free space of each path, which command lines exit with status
  0, the names \<^verbatim>\<open>tempfile.mkdtemp\<close> will try, in order, and the list of command
  lines run so far.
\<close>

record os_world =
  CONFIG :: program_config
  fs :: "string set"
  disk_free :: "string \<Rightarrow> nat"
  exit_ok :: "string list \<Rightarrow> bool"
  temp_names :: "string list"
  ran :: "string list list"

text \<open>
  \<^verbatim>\<open>_Archive\<close>: \<open>input_dir\<close> is what lies below \<^verbatim>\<open>input_path\<close> and
  \<open>input_entries\<close> are the names \<^verbatim>\<open>input_path.iterdir()\<close> yields, relative to
  it.
\<close>

record archive_handler =
  input_path :: string
  input_dir :: fs_node
  input_entries :: "string list"
  arc_name :: string
  archive_path :: "string option"
  tmpdir :: "string option"

text \<open>
  \<^verbatim>\<open>Path.joinpath\<close> with one argument: an absolute argument replaces the path.
\<close>

definition joinpath :: "string \<Rightarrow> string \<Rightarrow> string" where
  "joinpath p q = (if q \<noteq> [] \<and> hd q = CHR ''/'' then q else p @ ''/'' @ q)"



text \<open>
  \<^verbatim>\<open>subprocess.run(args, check=True)\<close>: the command line is recorded, and a
  non-zero exit status is a \<^verbatim>\<open>CalledProcessError\<close>.
\<close>

definition subprocess_run :: "string list \<Rightarrow> os_world \<Rightarrow> (exn + unit) \<times> os_world" where
  "subprocess_run args w =
     (if exit_ok w args then Inr () else Inl CalledProcessError, w\<lparr>ran := ran w @ [args]\<rparr>)"
















section \<open>Snapshot names (snapshot.py, common.py)\<close>

text \<open>
  \<^verbatim>\<open>_LETTERS = set(string.ascii_letters) | set(string.digits) | set("_")\<close>
\<close>

definition ascii_letters :: string where
  "ascii_letters = ''abcdefghijklmnopqrstuvwxyzABCDEFGHIJKLMNOPQRSTUVWXYZ''"

definition digits :: string where
  "digits = ''0123456789''"

definition LETTERS :: "char set" where
  "LETTERS = set ascii_letters \<union> set digits \<union> set ''_''"

text \<open>
  \<^verbatim>\<open>"".join(filter(lambda char: char in _LETTERS, snapname))\<close>, in the constructors
  of \<^verbatim>\<open>_Btrfs\<close> and \<^verbatim>\<open>_Zfs\<close>.
\<close>

definition sanitize :: "string \<Rightarrow> string" where
  "sanitize snapname = filter (\<lambda>char. char \<in> LETTERS) snapname"

text \<open>
  The collision loop, as both classes write it:
  \<^verbatim>\<open>while taken(candidate): candidate = rename(get_random_str(n))\<close>.
  \<^verbatim>\<open>get_random_str\<close> draws from the system's random source; \<open>rnd i\<close> is the string
  its \<open>i\<close>-th call in the loop returns. The loop's state is the candidate and the number
  of draws made. A loop that never leaves is \<open>None\<close>.
\<close>

definition collision_loop ::
  "(string \<Rightarrow> bool) \<Rightarrow> (string \<Rightarrow> string) \<Rightarrow> (nat \<Rightarrow> string) \<Rightarrow> string
     \<Rightarrow> (string \<times> nat) option" where
  "collision_loop taken rename rnd first =
     while_option (\<lambda>(candidate, i). taken candidate)
       (\<lambda>(candidate, i). (rename (rnd i), Suc i)) (first, 0)"

text \<open>\<^verbatim>\<open>_Btrfs\<close>: constructor and \<^verbatim>\<open>create_snapshot\<close>.\<close>

record Btrfs =
  btrfs_path :: string
  btrfs_snapname :: string
  snap_path :: "string option"

definition Btrfs_init :: "string \<Rightarrow> string \<Rightarrow> exn + Btrfs" where
  "Btrfs_init path_raw snapname =
     (if \<not> (path_raw \<noteq> [] \<and> hd path_raw = CHR ''/'')
      then Inl (RuntimeError ''Requires absolute path'')
      else Inr \<lparr>btrfs_path = path_raw, btrfs_snapname = sanitize snapname, snap_path = None\<rparr>)"

definition Btrfs_snap_path_loop :: "string set \<Rightarrow> Btrfs \<Rightarrow> (nat \<Rightarrow> string) \<Rightarrow> (string \<times> nat) option" where
  "Btrfs_snap_path_loop paths self rnd =
     collision_loop (\<lambda>p. p \<in> paths)
       (\<lambda>r. joinpath (btrfs_path self) (btrfs_snapname self @ ''_'' @ r))
       rnd (joinpath (btrfs_path self) (btrfs_snapname self))"

definition Btrfs_create_snapshot ::
  "(nat \<Rightarrow> string) \<Rightarrow> os_world \<Rightarrow> Btrfs \<Rightarrow> ((exn + string) \<times> os_world \<times> Btrfs) option" where
  "Btrfs_create_snapshot rnd w self =
     (case snap_path self of
        Some p \<Rightarrow> Some (Inr p, w, self)
      | None \<Rightarrow>
          (case Btrfs_snap_path_loop (fs w) self rnd of
             None \<Rightarrow> None
           | Some (p, i) \<Rightarrow>
               (case subprocess_run [''btrfs'', ''subvolume'', ''snapshot'', btrfs_path self, p] w of
                  (Inl e, w1) \<Rightarrow> Some (Inl e, w1, self)
                | (Inr u, w1) \<Rightarrow>
                    Some (Inr p, w1\<lparr>fs := insert p (fs w1)\<rparr>, self\<lparr>snap_path := Some p\<rparr>))))"

text \<open>
  \<^verbatim>\<open>_Zfs\<close>: the name choice that opens \<^verbatim>\<open>create_snapshot\<close>;
  \<open>system_datasets\<close> are the keys of the dictionary \<^verbatim>\<open>self.list_dataset()\<close>
  returns (it is cached, so every round of the loop sees the same keys).
\<close>

definition Zfs_snapshot_name_loop ::
  "string set \<Rightarrow> string \<Rightarrow> string \<Rightarrow> (nat \<Rightarrow> string) \<Rightarrow> (string \<times> nat) option" where
  "Zfs_snapshot_name_loop system_datasets dataset snapname rnd =
     collision_loop (\<lambda>n. n \<in> system_datasets)
       (\<lambda>r. dataset @ ''@'' @ snapname @ ''_'' @ r)
       rnd (dataset @ ''@'' @ snapname)"

text \<open>
  The spec's words for the allowed characters: ASCII letters, digits and the underscore,
  by their codes.
\<close>

definition letter_digit_underscore :: "char \<Rightarrow> bool" where
  "letter_digit_underscore c =
     (let n = (of_char c :: nat)
      in (97 \<le> n \<and> n \<le> 122) \<or> (65 \<le> n \<and> n \<le> 90) \<or> (48 \<le> n \<and> n \<le> 57) \<or> n = 95)"

text \<open>
  The candidates the loop goes through: the plain name first, then the name with the
  first, second, ... random suffix.
\<close>

definition candidate :: "(string \<Rightarrow> string) \<Rightarrow> (nat \<Rightarrow> string) \<Rightarrow> string \<Rightarrow> nat \<Rightarrow> string" where
  "candidate rename rnd first k = (if k = 0 then first else rename (rnd (k - 1)))"

text \<open>
  An example: the snapshot name \<^verbatim>\<open>temp\<close> under \<^verbatim>\<open>/mnt\<close>, where the plain
  path and the path with the first suffix drawn exist; the second draw gives another
  suffix.
\<close>

definition example_btrfs :: Btrfs where
  "example_btrfs = \<lparr>btrfs_path = ''/mnt'', btrfs_snapname = ''temp'', snap_path = None\<rparr>"

definition example_paths :: "string set" where
  "example_paths = {''/mnt'', ''/mnt/temp'', ''/mnt/temp_aaaaaaaaaa''}"

definition example_draws :: "nat \<Rightarrow> string" where
  "example_draws i = (if i = 0 then ''aaaaaaaaaa'' else ''bbbbbbbbbb'')"

section \<open>Backup construction\<close>

text \<open>
  C3, as the spec has it, says that construction fails for a timestamp without timezone
  and also for one with sub-second resolution. The second check of the source compares the
  class attribute \<^verbatim>\<open>resolution\<close> (one microsecond) with one second, so it never
  fails: a timezone-aware timestamp with a non-zero microsecond field is accepted.
\<close>

theorem C3_subsecond_accepted_counterexample:
  "microsecond \<lparr>year = 2022, month = 7, day = 23, hour = 12, minute = 0, second = 0,
      microsecond = 500000, tzinfo = Some 0\<rparr> \<noteq> 0
   \<and> Backup_init ''t_x'' ''t_x''
        \<lparr>year = 2022, month = 7, day = 23, hour = 12, minute = 0, second = 0,
         microsecond = 500000, tzinfo = Some 0\<rparr> True
     = Inr \<lparr>name = ''t_x'', path = ''t_x'',
          time = \<lparr>year = 2022, month = 7, day = 23, hour = 12, minute = 0, second = 0,
            microsecond = 500000, tzinfo = Some 0\<rparr>,
          is_dir = True\<rparr>"
  by (simp add: Backup_init_def resolution_def timedelta_seconds_def)

text \<open>
  C3 (amended): for every name, path, timestamp and directory flag, construction fails
  exactly when the timestamp has no timezone (with
  \<^verbatim>\<open>AttributeError("Requires Timezone Information")\<close>); every timezone-aware
  timestamp, whatever its microsecond field, is accepted, and the record stores the four
  given fields unchanged.
\<close>

theorem C3_Backup_init:
  "Backup_init n p t d =
     (if tzinfo t = None then Inl (AttributeError ''Requires Timezone Information'')
      else Inr \<lparr>name = n, path = p, time = t, is_dir = d\<rparr>)"
  by (simp add: Backup_init_def resolution_def timedelta_seconds_def)

theorem C3_Backup_init_witness:
  "Backup_init ''t_x'' ''t_x''
      \<lparr>year = 2022, month = 7, day = 23, hour = 12, minute = 0, second = 0,
       microsecond = 0, tzinfo = None\<rparr> False
     = Inl (AttributeError ''Requires Timezone Information'')
   \<and> Backup_init ''t_x'' ''t_x''
      \<lparr>year = 2022, month = 7, day = 23, hour = 12, minute = 0, second = 0,
       microsecond = 0, tzinfo = Some 32400000000\<rparr> False
     = Inr \<lparr>name = ''t_x'', path = ''t_x'',
          time = \<lparr>year = 2022, month = 7, day = 23, hour = 12, minute = 0, second = 0,
            microsecond = 0, tzinfo = Some 32400000000\<rparr>,
          is_dir = False\<rparr>"
  using C3_Backup_init [of "''t_x''" "''t_x''"
      "\<lparr>year = 2022, month = 7, day = 23, hour = 12, minute = 0, second = 0,
        microsecond = 0, tzinfo = None\<rparr>" False]
    C3_Backup_init [of "''t_x''" "''t_x''"
      "\<lparr>year = 2022, month = 7, day = 23, hour = 12, minute = 0, second = 0,
        microsecond = 0, tzinfo = Some 32400000000\<rparr>" False]
  by simp

section \<open>Order, equality and hash of Backup records\<close>

lemma insort_Backup_insort_key:
  "insort_Backup x ys = insort_key (\<lambda>b. utc_micros (time b)) x ys"
  by (induction ys) (auto simp: Backup_lt_def datetime_lt_def)

lemma sorted_Backups_sort_key:
  "sorted_Backups xs = sort_key (\<lambda>b. utc_micros (time b)) xs"
  unfolding sorted_Backups_def sort_key_def
  by (induction xs) (simp_all add: insort_Backup_insort_key)



lemma sorted_Backups_set: "set (sorted_Backups xs) = set xs"
  by (simp add: sorted_Backups_sort_key)



















section \<open>Workspace selection\<close>

lemma working_path_loop_Inr:
  "working_path_loop free sz ps = Inr p \<longleftrightarrow>
     (\<exists>i < length ps. ps ! i = p \<and> sz < free p \<and> (\<forall>j < i. \<not> sz < free (ps ! j)))"
proof (induction ps)
  case Nil
  show ?case by simp
next
  case (Cons q qs)
  show ?case
  proof (cases "sz < free q")
    case True
    have "(\<exists>i < length (q # qs). (q # qs) ! i = p \<and> sz < free p
             \<and> (\<forall>j < i. \<not> sz < free ((q # qs) ! j))) \<longleftrightarrow> q = p"
    proof
      assume "\<exists>i < length (q # qs). (q # qs) ! i = p \<and> sz < free p
             \<and> (\<forall>j < i. \<not> sz < free ((q # qs) ! j))"
      then obtain i where i: "(q # qs) ! i = p" "\<forall>j < i. \<not> sz < free ((q # qs) ! j)"
        by blast
      have "i = 0"
      proof (rule ccontr)
        assume "i \<noteq> 0"
        then have "0 < i" by simp
        with i(2) have "\<not> sz < free ((q # qs) ! 0)" by blast
        with True show False by simp
      qed
      with i(1) show "q = p" by simp
    next
      assume "q = p"
      with True show "\<exists>i < length (q # qs). (q # qs) ! i = p \<and> sz < free p
             \<and> (\<forall>j < i. \<not> sz < free ((q # qs) ! j))"
        by (intro exI [of _ 0]) simp
    qed
    with True show ?thesis by simp
  next
    case False
    have "(\<exists>i < length (q # qs). (q # qs) ! i = p \<and> sz < free p
             \<and> (\<forall>j < i. \<not> sz < free ((q # qs) ! j)))
          \<longleftrightarrow> (\<exists>i < length qs. qs ! i = p \<and> sz < free p
             \<and> (\<forall>j < i. \<not> sz < free (qs ! j)))" (is "?L \<longleftrightarrow> ?R")
    proof
      assume ?L
      then obtain i where i: "i < length (q # qs)" "(q # qs) ! i = p" "sz < free p"
        "\<forall>j < i. \<not> sz < free ((q # qs) ! j)" by blast
      from i(2,3) False have "i \<noteq> 0" by (cases i) auto
      then obtain k where k: "i = Suc k" by (cases i) auto
      have "\<forall>j < k. \<not> sz < free (qs ! j)"
      proof (intro allI impI)
        fix j assume "j < k"
        then have "Suc j < i" using k by simp
        with i(4) have "\<not> sz < free ((q # qs) ! Suc j)" by blast
        then show "\<not> sz < free (qs ! j)" by simp
      qed
      with i k show ?R by (intro exI [of _ k]) simp
    next
      assume ?R
      then obtain k where k: "k < length qs" "qs ! k = p" "sz < free p"
        "\<forall>j < k. \<not> sz < free (qs ! j)" by blast
      have "\<forall>j < Suc k. \<not> sz < free ((q # qs) ! j)"
      proof (intro allI impI)
        fix j assume "j < Suc k"
        then show "\<not> sz < free ((q # qs) ! j)"
          using False k(4) by (cases j) auto
      qed
      with k show ?L by (intro exI [of _ "Suc k"]) simp
    qed
    with False Cons.IH show ?thesis by simp
  qed
qed

lemma working_path_loop_Inl:
  "working_path_loop free sz ps
     = Inl (RuntimeError ''Could not find a workspace with enough free space'')
   \<longleftrightarrow> (\<forall>p \<in> set ps. free p \<le> sz)"
  by (induction ps) (auto simp: not_less)

lemma working_path_loop_Inl_only:
  "working_path_loop free sz ps = Inl e
   \<Longrightarrow> e = RuntimeError ''Could not find a workspace with enough free space''"
  by (induction ps) (auto split: if_splits)

lemma sum_list_concat_map:
  "sum_list (concat (map f xs)) = sum_list (map (\<lambda>x. sum_list (f x)) xs)"
  by (induction xs) auto

lemma file_bytes_below:
  "st_size_if_file t + sum_list (map st_size (filter is_file (glob_all t)))
     = total_file_bytes t"
  if "st_size_if_file = (\<lambda>u. if is_file u then st_size u else 0)"
proof (induction t)
  case (File n)
  show ?case by (simp add: that)
next
  case (Dir n ts)
  have "sum_list (map st_size (filter is_file (concat (map (\<lambda>t. t # glob_all t) ts))))
      = sum_list (map (\<lambda>t. st_size_if_file t
            + sum_list (map st_size (filter is_file (glob_all t)))) ts)"
    by (induction ts) (auto simp: that)
  also have "\<dots> = sum_list (map total_file_bytes ts)"
    using Dir.IH by (intro arg_cong [where f = sum_list] map_cong) auto
  finally show ?case by (simp add: that)
qed

lemma input_size_total_file_bytes:
  "input_size (Dir n ts) = total_file_bytes (Dir n ts)"
  using file_bytes_below [OF refl, of "Dir n ts"] by (simp add: input_size_def)

text \<open>
  C6: for a source directory whose files total \<open>S\<close> bytes (every regular file at any
  depth below it counted once, directories themselves not counted), workspace selection
  returns a candidate exactly when it is the first one in the list whose free space is
  strictly greater than \<open>S\<close>, and raises (the \<^verbatim>\<open>RuntimeError\<close> "Could not find
  a workspace with enough free space", and nothing else) exactly when no candidate has
  more than \<open>S\<close> free.
\<close>

theorem C6_get_working_path:
  "(get_working_path free ps (Dir n ts) = Inr p \<longleftrightarrow>
      (\<exists>i < length ps. ps ! i = p \<and> total_file_bytes (Dir n ts) < free p
         \<and> (\<forall>j < i. \<not> total_file_bytes (Dir n ts) < free (ps ! j))))
   \<and> (get_working_path free ps (Dir n ts)
        = Inl (RuntimeError ''Could not find a workspace with enough free space'')
      \<longleftrightarrow> (\<forall>q \<in> set ps. free q \<le> total_file_bytes (Dir n ts)))
   \<and> (\<forall>e. get_working_path free ps (Dir n ts) = Inl e
        \<longrightarrow> e = RuntimeError ''Could not find a workspace with enough free space'')"
proof -
  have s: "input_size (Dir n ts) = total_file_bytes (Dir n ts)"
    by (rule input_size_total_file_bytes)
  have a: "get_working_path free ps (Dir n ts) = Inr p \<longleftrightarrow>
      (\<exists>i < length ps. ps ! i = p \<and> total_file_bytes (Dir n ts) < free p
         \<and> (\<forall>j < i. \<not> total_file_bytes (Dir n ts) < free (ps ! j)))"
    unfolding get_working_path_def s by (rule working_path_loop_Inr)
  have b: "get_working_path free ps (Dir n ts)
        = Inl (RuntimeError ''Could not find a workspace with enough free space'')
      \<longleftrightarrow> (\<forall>q \<in> set ps. free q \<le> total_file_bytes (Dir n ts))"
    unfolding get_working_path_def s by (rule working_path_loop_Inl)
  have c: "\<forall>e. get_working_path free ps (Dir n ts) = Inl e
        \<longrightarrow> e = RuntimeError ''Could not find a workspace with enough free space''"
    unfolding get_working_path_def using working_path_loop_Inl_only by blast
  from a b c show ?thesis by blast
qed

lemma total_file_bytes_src_60: "total_file_bytes src_60 = 60"
  by (simp add: src_60_def)

lemma total_file_bytes_src_200: "total_file_bytes src_200 = 200"
  by (simp add: src_200_def)

theorem C6_get_working_path_witness:
  "get_working_path free_10_50_100 [''/a'', ''/b'', ''/c''] src_60 = Inr ''/c''
   \<and> get_working_path free_10_50_100 [''/a'', ''/b'', ''/c''] src_200
     = Inl (RuntimeError ''Could not find a workspace with enough free space'')
   \<and> get_working_path free_10_50_100 [''/c'', ''/b'', ''/a''] src_10 = Inr ''/c''
   \<and> get_working_path free_10_50_100 [''/a'', ''/b'', ''/c''] src_10 = Inr ''/b''
   \<and> input_size src_60 = 60 \<and> input_size src_200 = 200"
proof -
  have h1: "\<exists>i < length [''/a'', ''/b'', ''/c''].
      [''/a'', ''/b'', ''/c''] ! i = ''/c''
      \<and> total_file_bytes (Dir 4096 [File 15, Dir 4096 [File 5, Dir 4096 [Dir 4096 [File 40], Dir 4096 []]]])
          < free_10_50_100 ''/c''
      \<and> (\<forall>j < i. \<not> total_file_bytes (Dir 4096 [File 15, Dir 4096 [File 5, Dir 4096 [Dir 4096 [File 40], Dir 4096 []]]])
            < free_10_50_100 ([''/a'', ''/b'', ''/c''] ! j))"
    by (rule exI [of _ 2]) (simp add: free_10_50_100_def less_Suc_eq numeral_2_eq_2)
  have h2: "\<forall>q \<in> set [''/a'', ''/b'', ''/c''].
      free_10_50_100 q \<le> total_file_bytes (Dir 4096 [Dir 4096 [File 120], File 80])"
    by (simp add: free_10_50_100_def)
  have h3: "\<exists>i < length [''/c'', ''/b'', ''/a''].
      [''/c'', ''/b'', ''/a''] ! i = ''/c''
      \<and> total_file_bytes (Dir 4096 [Dir 4096 [File 4, Dir 4096 [File 6]]])
          < free_10_50_100 ''/c''
      \<and> (\<forall>j < i. \<not> total_file_bytes (Dir 4096 [Dir 4096 [File 4, Dir 4096 [File 6]]])
            < free_10_50_100 ([''/c'', ''/b'', ''/a''] ! j))"
    by (rule exI [of _ 0]) (simp add: free_10_50_100_def)
  have h4: "\<exists>i < length [''/a'', ''/b'', ''/c''].
      [''/a'', ''/b'', ''/c''] ! i = ''/b''
      \<and> total_file_bytes (Dir 4096 [Dir 4096 [File 4, Dir 4096 [File 6]]])
          < free_10_50_100 ''/b''
      \<and> (\<forall>j < i. \<not> total_file_bytes (Dir 4096 [Dir 4096 [File 4, Dir 4096 [File 6]]])
            < free_10_50_100 ([''/a'', ''/b'', ''/c''] ! j))"
    by (rule exI [of _ 1]) (simp add: free_10_50_100_def)
  have r1: "get_working_path free_10_50_100 [''/a'', ''/b'', ''/c''] src_60 = Inr ''/c''"
    unfolding src_60_def by (rule iffD2 [OF conjunct1 [OF C6_get_working_path] h1])
  have r2: "get_working_path free_10_50_100 [''/a'', ''/b'', ''/c''] src_200
     = Inl (RuntimeError ''Could not find a workspace with enough free space'')"
    unfolding src_200_def
    by (rule iffD2 [OF conjunct1 [OF conjunct2 [OF C6_get_working_path]] h2])
  have r3: "get_working_path free_10_50_100 [''/c'', ''/b'', ''/a''] src_10 = Inr ''/c''"
    unfolding src_10_def by (rule iffD2 [OF conjunct1 [OF C6_get_working_path] h3])
  have r4: "get_working_path free_10_50_100 [''/a'', ''/b'', ''/c''] src_10 = Inr ''/b''"
    unfolding src_10_def by (rule iffD2 [OF conjunct1 [OF C6_get_working_path] h4])
  have s1: "input_size src_60 = 60"
    by (simp add: input_size_def src_60_def)
  have s2: "input_size src_200 = 200"
    by (simp add: input_size_def src_200_def)
  from r1 r2 r3 r4 s1 s2 show ?thesis by simp
qed

section \<open>Archive creation is cached\<close>
















end
